theory Spec2Isabelle
  imports Main
begin

section \<open>The session/profile store of src/store/authStore.ts\<close>

text \<open>
  The store is a zustand store: one mutable snapshot \<open>AuthState\<close>, written only through
  \<open>set\<close>, which merges the given fields into the snapshot current at the time of the
  call. Every operation is an async function; it runs without interruption up to an
  \<open>await\<close> of a remote call and resumes when that call settles. The remote services
  (the identity provider and the profile repository) are not part of the program, so what
  they answer is an argument of the model: a call that rejects is \<open>Inl e\<close>, a call that
  resolves with a response object is \<open>Inr r\<close>.
\<close>

subsection \<open>Data\<close>

text \<open>
  The thrown and returned error objects (AuthError, PostgrestError, Error) all carry a
  string \<open>message\<close>; a PostgrestError also carries a \<open>code\<close>.
\<close>

record js_error =
  message :: string
  code :: "string option"

text \<open>The fields of supabase's \<open>User\<close> and \<open>Session\<close> that the store reads.\<close>

record User =
  user_id :: string
  user_email :: "string option"
  user_metadata_name :: "string option"
  email_confirmed_at :: "string option"

record Session =
  session_user :: User
  access_token :: string

record Profile =
  profile_id :: string
  profile_email :: string
  profile_name :: string
  avatar_url :: "string option"
  created_at :: string
  updated_at :: string

record AuthState =
  user :: "User option"
  profile :: "Profile option"
  session :: "Session option"
  isLoading :: bool
  isInitialized :: bool
  error :: "string option"

text \<open>How the promise of an operation settles.\<close>

datatype outcome = Resolved | Rejected js_error

text \<open>
  The response objects: \<open>{ data: { session }, error }\<close> of getSession,
  \<open>{ data: { user, session }, error }\<close> of signInWithPassword and signUp,
  \<open>{ error }\<close> of signOut (its error alone) and \<open>{ data, error }\<close> of a
  query on the profiles table ending in \<open>.single()\<close>.
\<close>

record SessionResponse =
  gs_session :: "Session option"
  gs_error :: "js_error option"

record AuthResponse =
  data_user :: "User option"
  data_session :: "Session option"
  auth_error :: "js_error option"

record ProfileResponse =
  data :: "Profile option"
  db_error :: "js_error option"

type_synonym 'a awaited = "js_error + 'a"

text \<open>The row that fetchProfile inserts: \<open>{ id, email, name }\<close>.\<close>

record ProfileRow =
  row_id :: string
  row_email :: string
  row_name :: string

text \<open>The initial state of the store (lines 36 to 41).\<close>

definition initial_state :: AuthState where
  "initial_state =
     \<lparr>user = None, profile = None, session = None,
      isLoading = False, isInitialized = False, error = None\<rparr>"

subsection \<open>JavaScript on strings\<close>

text \<open>\<open>a || b\<close> on strings: the empty string is falsy.\<close>

definition or_else :: "string \<Rightarrow> string \<Rightarrow> string" where
  "or_else a b = (if a = [] then b else a)"

text \<open>
  An optional string under \<open>||\<close> and \<open>!\<close>: \<open>undefined\<close> is falsy like the empty
  string, so it is read as the empty string there.
\<close>

definition str_of :: "string option \<Rightarrow> string" where
  "str_of x = (case x of None \<Rightarrow> [] | Some v \<Rightarrow> v)"

definition truthy :: "string option \<Rightarrow> bool" where
  "truthy x = (str_of x \<noteq> [])"

text \<open>\<open>s.includes(pat)\<close>: \<open>pat\<close> occurs in \<open>s\<close> as a contiguous run.\<close>

fun includes_str :: "string \<Rightarrow> string \<Rightarrow> bool" where
  "includes_str [] pat = (pat = [])"
| "includes_str (c # cs) pat = (take (length pat) (c # cs) = pat \<or> includes_str cs pat)"

text \<open>\<open>s.split('@')[0]\<close>: the part of \<open>s\<close> before the first \<open>@\<close>.\<close>

definition before_at :: "string \<Rightarrow> string" where
  "before_at s = takeWhile (\<lambda>c. c \<noteq> CHR ''@'') s"

subsection \<open>fetchProfile (lines 201 to 242)\<close>

text \<open>
  The row of line 217:
  \<open>{ id: user.id, email: user.email || '',
      name: user.user_metadata?.name || user.email?.split('@')[0] || 'User' }\<close>.
\<close>

definition new_profile_row :: "User \<Rightarrow> ProfileRow" where
  "new_profile_row u =
     \<lparr>row_id = user_id u,
      row_email = or_else (str_of (user_email u)) [],
      row_name =
        or_else (or_else (str_of (user_metadata_name u))
                         (str_of (map_option before_at (user_email u))))
                ''User''\<rparr>"

text \<open>The repository's not-found signal: a returned error whose code is PGRST116.\<close>

definition not_found :: "ProfileResponse awaited \<Rightarrow> bool" where
  "not_found r =
     (case r of Inl e \<Rightarrow> False
      | Inr resp \<Rightarrow>
          (case db_error resp of None \<Rightarrow> False
           | Some e \<Rightarrow> code e = Some ''PGRST116''))"

text \<open>
  fetchProfile awaits twice, so it runs in up to three uninterrupted pieces. After a
  piece the call has either settled, with the state it leaves, or it has sent the
  insert of line 215 and waits for its answer.
\<close>

datatype fetch_next = Settled outcome AuthState | InsertSent ProfileRow

text \<open>The catch block of line 237: it logs and writes nothing.\<close>

definition fetchProfile_catch :: "js_error \<Rightarrow> AuthState \<Rightarrow> outcome \<times> AuthState" where
  "fetchProfile_catch e s = (Resolved, s)"

text \<open>
  Lines 202 and 203: the user is read once, before the first await, and kept in the
  local constant \<open>user\<close>; with no user the call returns at once. Otherwise the select
  of line 206 is sent for \<open>user.id\<close>.
\<close>

definition fetchProfile_begin :: "AuthState \<Rightarrow> User option" where
  "fetchProfile_begin s = user s"

text \<open>
  Lines 206 to 236, from the moment the select settles, on the state \<open>s\<close> current at
  that moment: a rejected await and the \<open>throw error\<close> of line 233 both land in the
  catch block.
\<close>

definition fetchProfile_selected ::
  "User \<Rightarrow> ProfileResponse awaited \<Rightarrow> AuthState \<Rightarrow> fetch_next" where
  "fetchProfile_selected u r s =
     (case r of
        Inl e \<Rightarrow> (case fetchProfile_catch e s of (out, s') \<Rightarrow> Settled out s')
      | Inr resp \<Rightarrow>
          (case db_error resp of
             Some e \<Rightarrow>
               if code e = Some ''PGRST116'' then InsertSent (new_profile_row u)
               else (case fetchProfile_catch e s of (out, s') \<Rightarrow> Settled out s')
           | None \<Rightarrow> Settled Resolved (s\<lparr>profile := data resp\<rparr>)))"

text \<open>Lines 215 to 231, from the moment the insert settles.\<close>

definition fetchProfile_inserted ::
  "ProfileResponse awaited \<Rightarrow> AuthState \<Rightarrow> outcome \<times> AuthState" where
  "fetchProfile_inserted r s =
     (case r of
        Inl e \<Rightarrow> fetchProfile_catch e s
      | Inr resp \<Rightarrow>
          (case db_error resp of
             Some createError \<Rightarrow> (Resolved, s)
           | None \<Rightarrow> (Resolved, s\<lparr>profile := data resp\<rparr>)))"

text \<open>
  What the repository answers to one fetchProfile call: to its select, and to its insert
  if it sends one.
\<close>

record fetch_env =
  select_result :: "ProfileResponse awaited"
  insert_result :: "ProfileResponse awaited"

text \<open>fetchProfile run from its call to its return with nothing else in between.\<close>

definition fetchProfile :: "AuthState \<Rightarrow> fetch_env \<Rightarrow> outcome \<times> AuthState" where
  "fetchProfile s env =
     (case fetchProfile_begin s of
        None \<Rightarrow> (Resolved, s)
      | Some u \<Rightarrow>
          (case fetchProfile_selected u (select_result env) s of
             Settled out s' \<Rightarrow> (out, s')
           | InsertSent row \<Rightarrow> fetchProfile_inserted (insert_result env) s))"

subsection \<open>initialize and the identity-change handler (lines 43 to 96)\<close>

text \<open>
  The handler that initialize registers with onAuthStateChange (lines 66 to 88), called by
  the provider with an event name and a session or null. A supabase \<open>Session\<close> always
  holds its user, so \<open>session?.user\<close> is truthy exactly when the session is not null.
\<close>

definition onAuthStateChange ::
  "AuthState \<Rightarrow> string \<Rightarrow> Session option \<Rightarrow> fetch_env \<Rightarrow> outcome \<times> AuthState" where
  "onAuthStateChange s event sess env =
     (case sess of
        Some se \<Rightarrow>
          (let s1 = s\<lparr>user := Some (session_user se), session := Some se, error := None\<rparr>
           in if event = ''SIGNED_IN'' \<or> event = ''TOKEN_REFRESHED''
              then fetchProfile s1 env
              else (Resolved, s1))
      | None \<Rightarrow>
          (Resolved, s\<lparr>user := None, profile := None, session := None, error := None\<rparr>))"

text \<open>
  The try block of initialize. \<open>g\<close> is how getSession settles, \<open>env\<close> what the
  repository answers to the profile fetch, \<open>sub\<close> the exception thrown by the
  registration of the handler, if it throws. The error that getSession returns in its
  response is logged (lines 48 to 50) and not used otherwise. The result is
  \<open>Rejected e\<close> when the block is left by an exception, with the state at that point.
\<close>

definition initialize_try ::
  "AuthState \<Rightarrow> SessionResponse awaited \<Rightarrow> fetch_env \<Rightarrow> js_error option
     \<Rightarrow> outcome \<times> AuthState" where
  "initialize_try s g env sub =
     (case g of
        Inl e \<Rightarrow> (Rejected e, s)
      | Inr resp \<Rightarrow>
          (case (case gs_session resp of
                   Some se \<Rightarrow>
                     fetchProfile
                       (s\<lparr>user := Some (session_user se), session := Some se,
                          isInitialized := True\<rparr>) env
                 | None \<Rightarrow> (Resolved, s\<lparr>isInitialized := True\<rparr>)) of
             (Rejected e, s1) \<Rightarrow> (Rejected e, s1)
           | (Resolved, s1) \<Rightarrow>
               (case sub of Some e \<Rightarrow> (Rejected e, s1) | None \<Rightarrow> (Resolved, s1))))"

text \<open>The catch block of line 89.\<close>

definition initialize_catch :: "js_error \<Rightarrow> AuthState \<Rightarrow> outcome \<times> AuthState" where
  "initialize_catch e s = (Resolved, s\<lparr>error := Some (message e), isInitialized := True\<rparr>)"

definition initialize ::
  "AuthState \<Rightarrow> SessionResponse awaited \<Rightarrow> fetch_env \<Rightarrow> js_error option
     \<Rightarrow> outcome \<times> AuthState" where
  "initialize s g env sub =
     (case initialize_try s g env sub of
        (Rejected e, s') \<Rightarrow> initialize_catch e s'
      | (Resolved, s') \<Rightarrow> (Resolved, s'))"

subsection \<open>login (lines 98 to 133)\<close>

definition email_not_confirmed_error :: js_error where
  "email_not_confirmed_error =
     \<lparr>message = ''Please confirm your email address by clicking the link in the email we sent you.'',
      code = None\<rparr>"

definition login_try ::
  "AuthState \<Rightarrow> AuthResponse awaited \<Rightarrow> fetch_env \<Rightarrow> outcome \<times> AuthState" where
  "login_try s r env =
     (case r of
        Inl e \<Rightarrow> (Rejected e, s)
      | Inr resp \<Rightarrow>
          (case auth_error resp of
             Some e \<Rightarrow>
               if includes_str (message e) ''Email not confirmed''
               then (Rejected email_not_confirmed_error, s)
               else (Rejected e, s)
           | None \<Rightarrow>
               (case data_user resp of
                  Some u \<Rightarrow>
                    fetchProfile
                      (s\<lparr>user := Some u, session := data_session resp, isLoading := False\<rparr>)
                      env
                | None \<Rightarrow> (Resolved, s))))"

definition login_catch :: "js_error \<Rightarrow> AuthState \<Rightarrow> outcome \<times> AuthState" where
  "login_catch e s =
     (Rejected e, s\<lparr>error := Some (or_else (message e) ''Login failed''), isLoading := False\<rparr>)"

text \<open>
  \<open>email\<close> and \<open>password\<close> go to the provider; \<open>r\<close> is how its signInWithPassword
  settles.
\<close>

definition login ::
  "AuthState \<Rightarrow> string \<Rightarrow> string \<Rightarrow> AuthResponse awaited \<Rightarrow> fetch_env
     \<Rightarrow> outcome \<times> AuthState" where
  "login s email password r env =
     (case login_try (s\<lparr>isLoading := True, error := None\<rparr>) r env of
        (Rejected e, s') \<Rightarrow> login_catch e s'
      | (Resolved, s') \<Rightarrow> (Resolved, s'))"

subsection \<open>signup (lines 135 to 176)\<close>

definition confirmation_pending :: string where
  "confirmation_pending =
     ''Please check your email and click the confirmation link to complete your registration.''"

definition signup_try :: "AuthState \<Rightarrow> AuthResponse awaited \<Rightarrow> outcome \<times> AuthState" where
  "signup_try s r =
     (case r of
        Inl e \<Rightarrow> (Rejected e, s)
      | Inr resp \<Rightarrow>
          (case auth_error resp of
             Some e \<Rightarrow> (Rejected e, s)
           | None \<Rightarrow>
               (case data_user resp of
                  Some u \<Rightarrow>
                    if \<not> truthy (email_confirmed_at u)
                    then (Resolved, s\<lparr>error := Some confirmation_pending, isLoading := False\<rparr>)
                    else (Resolved,
                          s\<lparr>user := Some u, session := data_session resp, isLoading := False\<rparr>)
                | None \<Rightarrow> (Resolved, s))))"

definition signup_catch :: "js_error \<Rightarrow> AuthState \<Rightarrow> outcome \<times> AuthState" where
  "signup_catch e s =
     (Rejected e, s\<lparr>error := Some (or_else (message e) ''Signup failed''), isLoading := False\<rparr>)"

definition signup ::
  "AuthState \<Rightarrow> string \<Rightarrow> string \<Rightarrow> string \<Rightarrow> AuthResponse awaited
     \<Rightarrow> outcome \<times> AuthState" where
  "signup s email password name r =
     (case signup_try (s\<lparr>isLoading := True, error := None\<rparr>) r of
        (Rejected e, s') \<Rightarrow> signup_catch e s'
      | (Resolved, s') \<Rightarrow> (Resolved, s'))"

subsection \<open>logout (lines 178 to 199)\<close>

text \<open>\<open>r\<close> is how signOut settles: rejected, or resolved with \<open>{ error }\<close>.\<close>

definition logout_try :: "AuthState \<Rightarrow> js_error option awaited \<Rightarrow> outcome \<times> AuthState" where
  "logout_try s r =
     (case r of
        Inl e \<Rightarrow> (Rejected e, s)
      | Inr err \<Rightarrow>
          (case err of
             Some e \<Rightarrow> (Rejected e, s)
           | None \<Rightarrow>
               (Resolved,
                s\<lparr>user := None, profile := None, session := None, isLoading := False\<rparr>)))"

text \<open>The catch block of line 192: it writes the error and does not throw.\<close>

definition logout_catch :: "js_error \<Rightarrow> AuthState \<Rightarrow> outcome \<times> AuthState" where
  "logout_catch e s =
     (Resolved, s\<lparr>error := Some (or_else (message e) ''Logout failed''), isLoading := False\<rparr>)"

definition logout :: "AuthState \<Rightarrow> js_error option awaited \<Rightarrow> outcome \<times> AuthState" where
  "logout s r =
     (case logout_try (s\<lparr>isLoading := True, error := None\<rparr>) r of
        (Rejected e, s') \<Rightarrow> logout_catch e s'
      | (Resolved, s') \<Rightarrow> (Resolved, s'))"

subsection \<open>updateProfile (lines 244 to 271)\<close>

text \<open>\<open>Partial<Profile>\<close>: every field of a profile, each optional.\<close>

record ProfileUpdates =
  upd_id :: "string option"
  upd_email :: "string option"
  upd_name :: "string option"
  upd_avatar_url :: "string option"
  upd_created_at :: "string option"
  upd_updated_at :: "string option"

definition updateProfile_try ::
  "AuthState \<Rightarrow> ProfileResponse awaited \<Rightarrow> outcome \<times> AuthState" where
  "updateProfile_try s r =
     (case r of
        Inl e \<Rightarrow> (Rejected e, s)
      | Inr resp \<Rightarrow>
          (case db_error resp of
             Some e \<Rightarrow> (Rejected e, s)
           | None \<Rightarrow> (Resolved, s\<lparr>profile := data resp, isLoading := False\<rparr>)))"

text \<open>The catch block of line 264: it writes the error and does not throw.\<close>

definition updateProfile_catch :: "js_error \<Rightarrow> AuthState \<Rightarrow> outcome \<times> AuthState" where
  "updateProfile_catch e s =
     (Resolved,
      s\<lparr>error := Some (or_else (message e) ''Failed to update profile''), isLoading := False\<rparr>)"

text \<open>
  \<open>updates\<close> goes to the repository with \<open>user.id\<close>; \<open>r\<close> is how the update query
  settles.
\<close>

definition updateProfile ::
  "AuthState \<Rightarrow> ProfileUpdates \<Rightarrow> ProfileResponse awaited \<Rightarrow> outcome \<times> AuthState" where
  "updateProfile s updates r =
     (case user s of
        None \<Rightarrow> (Resolved, s)
      | Some u \<Rightarrow>
          (case updateProfile_try (s\<lparr>isLoading := True, error := None\<rparr>) r of
             (Rejected e, s') \<Rightarrow> updateProfile_catch e s'
           | (Resolved, s') \<Rightarrow> (Resolved, s')))"

subsection \<open>clearError (lines 273 to 275)\<close>

definition clearError :: "AuthState \<Rightarrow> AuthState" where
  "clearError s = s\<lparr>error := None\<rparr>"

subsection \<open>The persistence policy (lines 277 to 282)\<close>

text \<open>
  The object that \<open>partialize\<close> hands to the persist middleware: for each field of the
  state, \<open>None\<close> when the object has no such key and \<open>Some v\<close> when it holds \<open>v\<close>.
\<close>

record PersistedState =
  p_user :: "User option option"
  p_profile :: "Profile option option"
  p_session :: "Session option option"
  p_isLoading :: "bool option"
  p_isInitialized :: "bool option"
  p_error :: "string option option"

text \<open>\<open>partialize: (state) => ({ })\<close>: an object with no key.\<close>

definition partialize :: "AuthState \<Rightarrow> PersistedState" where
  "partialize state =
     \<lparr>p_user = None, p_profile = None, p_session = None,
      p_isLoading = None, p_isInitialized = None, p_error = None\<rparr>"

text \<open>
  Modelled from the spec: the persist middleware is a library and not among the sources.
  The state is mirrored to storage as selected by the policy and rehydrated at process
  start, before initialize runs: the keys that were stored overwrite those of the freshly
  created state, every other field keeps its initial value.
\<close>

definition merge_persisted :: "PersistedState \<Rightarrow> AuthState \<Rightarrow> AuthState" where
  "merge_persisted p current =
     \<lparr>user = (case p_user p of None \<Rightarrow> user current | Some v \<Rightarrow> v),
      profile = (case p_profile p of None \<Rightarrow> profile current | Some v \<Rightarrow> v),
      session = (case p_session p of None \<Rightarrow> session current | Some v \<Rightarrow> v),
      isLoading = (case p_isLoading p of None \<Rightarrow> isLoading current | Some v \<Rightarrow> v),
      isInitialized =
        (case p_isInitialized p of None \<Rightarrow> isInitialized current | Some v \<Rightarrow> v),
      error = (case p_error p of None \<Rightarrow> error current | Some v \<Rightarrow> v)\<rparr>"

definition rehydrate :: "AuthState \<Rightarrow> AuthState" where
  "rehydrate saved = merge_persisted (partialize saved) initial_state"

subsection \<open>Runs of the store\<close>

text \<open>
  One call of an operation, or one notification from the provider, together with what
  the remote services answer to it.
\<close>

datatype op =
    Initialize "SessionResponse awaited" fetch_env "js_error option"
  | Login string string "AuthResponse awaited" fetch_env
  | Signup string string string "AuthResponse awaited"
  | Logout "js_error option awaited"
  | FetchProfile fetch_env
  | UpdateProfile ProfileUpdates "ProfileResponse awaited"
  | ClearError
  | AuthStateChange string "Session option" fetch_env

fun apply_op :: "op \<Rightarrow> AuthState \<Rightarrow> outcome \<times> AuthState" where
  "apply_op (Initialize g env sub) s = initialize s g env sub"
| "apply_op (Login email password r env) s = login s email password r env"
| "apply_op (Signup email password name r) s = signup s email password name r"
| "apply_op (Logout r) s = logout s r"
| "apply_op (FetchProfile env) s = fetchProfile s env"
| "apply_op (UpdateProfile updates r) s = updateProfile s updates r"
| "apply_op ClearError s = (Resolved, clearError s)"
| "apply_op (AuthStateChange event sess env) s = onAuthStateChange s event sess env"

text \<open>
  The states reached when every operation and notification runs from its call to its
  return before the next one starts.
\<close>

inductive reachable :: "AuthState \<Rightarrow> bool" where
  reachable_initial: "reachable initial_state"
| reachable_op: "reachable s \<Longrightarrow> reachable (snd (apply_op x s))"

text \<open>
  Runs in which fetchProfile calls overlap with other work. A call in flight is
  suspended at one of its two awaits, holding the \<open>user\<close> it read when it was called;
  when the awaited answer arrives it resumes on the state current at that moment.
  An operation run by \<open>Run\<close> goes from its call to its return in one piece, which
  is one of the schedules the program has.
\<close>

datatype task = AwaitSelect User | AwaitInsert User ProfileRow | Returned

record config =
  store :: AuthState
  inflight :: "task list"

datatype event =
    Run op
  | CallFetchProfile
  | SelectSettles nat "ProfileResponse awaited"
  | InsertSettles nat "ProfileResponse awaited"

fun deliver :: "config \<Rightarrow> event \<Rightarrow> config" where
  "deliver c (Run x) = c\<lparr>store := snd (apply_op x (store c))\<rparr>"
| "deliver c CallFetchProfile =
     (case fetchProfile_begin (store c) of
        None \<Rightarrow> c
      | Some u \<Rightarrow> c\<lparr>inflight := inflight c @ [AwaitSelect u]\<rparr>)"
| "deliver c (SelectSettles i r) =
     (if i < length (inflight c) then
        (case inflight c ! i of
           AwaitSelect u \<Rightarrow>
             (case fetchProfile_selected u r (store c) of
                Settled out s' \<Rightarrow> c\<lparr>store := s', inflight := (inflight c)[i := Returned]\<rparr>
              | InsertSent row \<Rightarrow> c\<lparr>inflight := (inflight c)[i := AwaitInsert u row]\<rparr>)
         | AwaitInsert u row \<Rightarrow> c
         | Returned \<Rightarrow> c)
      else c)"
| "deliver c (InsertSettles i r) =
     (if i < length (inflight c) then
        (case inflight c ! i of
           AwaitInsert u row \<Rightarrow>
             c\<lparr>store := snd (fetchProfile_inserted r (store c)),
               inflight := (inflight c)[i := Returned]\<rparr>
         | AwaitSelect u \<Rightarrow> c
         | Returned \<Rightarrow> c)
      else c)"

definition run :: "event list \<Rightarrow> config" where
  "run evs = foldl deliver \<lparr>store = initial_state, inflight = []\<rparr> evs"

text \<open>The insert requests in flight for the profile of a given identity.\<close>

definition inserts_in_flight :: "config \<Rightarrow> string \<Rightarrow> nat" where
  "inserts_in_flight c uid =
     length (filter (\<lambda>t. case t of AwaitInsert u row \<Rightarrow> row_id row = uid | _ \<Rightarrow> False)
               (inflight c))"

subsection \<open>Failure of a remote call\<close>

text \<open>
  A remote call fails when its promise rejects or when the response it resolves with
  carries an error.
\<close>

definition auth_failed :: "AuthResponse awaited \<Rightarrow> bool" where
  "auth_failed r = (case r of Inl e \<Rightarrow> True | Inr resp \<Rightarrow> auth_error resp \<noteq> None)"

definition signout_failed :: "js_error option awaited \<Rightarrow> bool" where
  "signout_failed r = (case r of Inl e \<Rightarrow> True | Inr err \<Rightarrow> err \<noteq> None)"

definition db_failed :: "ProfileResponse awaited \<Rightarrow> bool" where
  "db_failed r = (case r of Inl e \<Rightarrow> True | Inr resp \<Rightarrow> db_error resp \<noteq> None)"

subsection \<open>Sample data\<close>

text \<open>A user, her session and her profile, and some answers of the remote services.\<close>

definition alice :: User where
  "alice =
     \<lparr>user_id = ''u1'', user_email = Some ''a@x.com'', user_metadata_name = Some ''Alice'',
      email_confirmed_at = Some ''2025-06-15T08:33:31Z''\<rparr>"

definition alice_unconfirmed :: User where
  "alice_unconfirmed = alice\<lparr>email_confirmed_at := None\<rparr>"

definition alice_session :: Session where
  "alice_session = \<lparr>session_user = alice, access_token = ''token-1''\<rparr>"

definition alice_profile :: Profile where
  "alice_profile =
     \<lparr>profile_id = ''u1'', profile_email = ''a@x.com'', profile_name = ''Alice'',
      avatar_url = None, created_at = ''2025-06-15T08:33:31Z'',
      updated_at = ''2025-06-15T08:33:31Z''\<rparr>"

definition outage :: js_error where
  "outage = \<lparr>message = ''Failed to fetch'', code = None\<rparr>"

definition found :: "ProfileResponse awaited" where
  "found = Inr \<lparr>data = Some alice_profile, db_error = None\<rparr>"

definition no_rows :: "ProfileResponse awaited" where
  "no_rows =
     Inr \<lparr>data = None,
          db_error = Some \<lparr>message = ''JSON object requested, multiple (or no) rows returned'',
                           code = Some ''PGRST116''\<rparr>\<rparr>"

definition db_down :: "ProfileResponse awaited" where
  "db_down = Inr \<lparr>data = None, db_error = Some outage\<rparr>"

definition env_found :: fetch_env where
  "env_found = \<lparr>select_result = found, insert_result = found\<rparr>"

definition env_down :: fetch_env where
  "env_down = \<lparr>select_result = db_down, insert_result = db_down\<rparr>"

definition signed_in :: "AuthResponse awaited" where
  "signed_in =
     Inr \<lparr>data_user = Some alice, data_session = Some alice_session, auth_error = None\<rparr>"

definition bad_password :: "AuthResponse awaited" where
  "bad_password =
     Inr \<lparr>data_user = None, data_session = None,
          auth_error = Some \<lparr>message = ''Invalid login credentials'', code = None\<rparr>\<rparr>"

definition registered_unconfirmed :: "AuthResponse awaited" where
  "registered_unconfirmed =
     Inr \<lparr>data_user = Some alice_unconfirmed, data_session = None, auth_error = None\<rparr>"

definition rename_updates :: ProfileUpdates where
  "rename_updates =
     \<lparr>upd_id = None, upd_email = None, upd_name = Some ''Alice B'', upd_avatar_url = None,
      upd_created_at = None, upd_updated_at = None\<rparr>"

text \<open>The state after Alice has logged in and her profile has been fetched.\<close>

definition alice_in :: AuthState where
  "alice_in =
     \<lparr>user = Some alice, profile = Some alice_profile, session = Some alice_session,
      isLoading = False, isInitialized = False, error = None\<rparr>"

text \<open>
  Alice logs in, a fetchProfile call starts, she logs out while its select is awaited,
  and then the select is answered.
\<close>

definition stale_fetch_run :: "event list" where
  "stale_fetch_run =
     [Run (Login ''a@x.com'' ''pw'' signed_in env_found),
      CallFetchProfile,
      Run (Logout (Inr None)),
      SelectSettles 0 found]"

text \<open>
  Alice logs in while the repository is down, so she has no profile yet. Two fetchProfile
  calls start (say the one of a caller and the one of the identity-change handler), and
  the repository answers both selects with the not-found signal.
\<close>

definition double_fetch_run :: "event list" where
  "double_fetch_run =
     [Run (Login ''a@x.com'' ''pw'' signed_in env_down),
      CallFetchProfile,
      CallFetchProfile,
      SelectSettles 0 no_rows,
      SelectSettles 1 no_rows]"

text \<open>A sign-in that the provider refuses because the email is not confirmed yet.\<close>

definition email_unconfirmed :: "AuthResponse awaited" where
  "email_unconfirmed =
     Inr \<lparr>data_user = None, data_session = None,
          auth_error = Some \<lparr>message = ''Email not confirmed'', code = None\<rparr>\<rparr>"

text \<open>The profile is absent and the repository is down when it is to be created.\<close>

definition env_create_fails :: fetch_env where
  "env_create_fails = \<lparr>select_result = no_rows, insert_result = db_down\<rparr>"


subsection \<open>Runs in which the answers arrive while a user is signed in\<close>

text \<open>
  The event is the answer to a call in flight that waits for it: an answer to a select
  for a call suspended at its select, an answer to an insert for a call suspended at its
  insert.
\<close>

fun lands :: "config \<Rightarrow> event \<Rightarrow> bool" where
  "lands c (Run x) = False"
| "lands c CallFetchProfile = False"
| "lands c (SelectSettles i r) =
     (i < length (inflight c) \<and>
      (case inflight c ! i of AwaitSelect u \<Rightarrow> True | AwaitInsert u row \<Rightarrow> False
       | Returned \<Rightarrow> False))"
| "lands c (InsertSettles i r) =
     (i < length (inflight c) \<and>
      (case inflight c ! i of AwaitInsert u row \<Rightarrow> True | AwaitSelect u \<Rightarrow> False
       | Returned \<Rightarrow> False))"

text \<open>
  Along the events, started in \<open>c\<close>: whenever an answer reaches a fetchProfile call in
  flight, the user is not null at that moment.
\<close>

fun answered_signed_in :: "config \<Rightarrow> event list \<Rightarrow> bool" where
  "answered_signed_in c [] = True"
| "answered_signed_in c (ev # evs) =
     ((lands c ev \<longrightarrow> user (store c) \<noteq> None) \<and> answered_signed_in (deliver c ev) evs)"

text \<open>Some fetchProfile call is in flight.\<close>

definition pending :: "config \<Rightarrow> bool" where
  "pending c = list_ex (\<lambda>t. t \<noteq> Returned) (inflight c)"

text \<open>
  Along the events, started in \<open>c\<close>: no step clears the user while a fetchProfile call
  is in flight.
\<close>

fun user_kept_in_flight :: "config \<Rightarrow> event list \<Rightarrow> bool" where
  "user_kept_in_flight c [] = True"
| "user_kept_in_flight c (ev # evs) =
     ((pending c \<and> user (store c) \<noteq> None \<longrightarrow> user (store (deliver c ev)) \<noteq> None) \<and>
      user_kept_in_flight (deliver c ev) evs)"

section \<open>Properties\<close>

subsection \<open>fetchProfile always resolves and writes the profile only\<close>

lemmas fetch_defs = fetchProfile_def fetchProfile_begin_def fetchProfile_selected_def
        fetchProfile_inserted_def fetchProfile_catch_def

lemma fetchProfile_resolves: "fst (fetchProfile s env) = Resolved"
  by (auto simp: fetch_defs
      split: option.splits sum.splits fetch_next.splits if_splits)

lemma fetchProfile_frame:
  "user (snd (fetchProfile s env)) = user s \<and>
   session (snd (fetchProfile s env)) = session s \<and>
   error (snd (fetchProfile s env)) = error s \<and>
   isLoading (snd (fetchProfile s env)) = isLoading s \<and>
   isInitialized (snd (fetchProfile s env)) = isInitialized s"
  by (auto simp: fetch_defs
      split: option.splits sum.splits fetch_next.splits if_splits)

lemma fetchProfile_no_user: "user s = None \<Longrightarrow> fetchProfile s env = (Resolved, s)"
  by (simp add: fetch_defs)

lemma fetchProfile_eqD:
  assumes "fetchProfile s env = (out, s')"
  shows "out = Resolved" and "user s' = user s" and "session s' = session s"
    and "error s' = error s" and "isLoading s' = isLoading s"
    and "isInitialized s' = isInitialized s"
proof -
  from assms have out: "out = fst (fetchProfile s env)" and s': "s' = snd (fetchProfile s env)"
    by simp_all
  show "out = Resolved" unfolding out by (rule fetchProfile_resolves)
  show "user s' = user s" unfolding s' by (simp add: fetchProfile_frame)
  show "session s' = session s" unfolding s' by (simp add: fetchProfile_frame)
  show "error s' = error s" unfolding s' by (simp add: fetchProfile_frame)
  show "isLoading s' = isLoading s" unfolding s' by (simp add: fetchProfile_frame)
  show "isInitialized s' = isInitialized s" unfolding s' by (simp add: fetchProfile_frame)
qed

lemma fetchProfile_inv:
  assumes "user s = None \<longrightarrow> profile s = None"
  shows "user (snd (fetchProfile s env)) = None \<longrightarrow> profile (snd (fetchProfile s env)) = None"
proof (cases "user s")
  case None
  with assms show ?thesis by (simp add: fetchProfile_no_user)
next
  case (Some u)
  then show ?thesis by (simp add: fetchProfile_frame)
qed

lemma fetchProfile_case:
  "(case fetchProfile s env of (Resolved, s') \<Rightarrow> f s' | (Rejected e, s') \<Rightarrow> g e s')
     = f (snd (fetchProfile s env))"
proof -
  obtain out s1 where eq: "fetchProfile s env = (out, s1)"
    by (rule prod.exhaust)
  from fetchProfile_eqD(1) [OF eq] show ?thesis
    by (simp add: eq)
qed

text \<open>
  The pieces of fetchProfile, delivered one after the other with nothing in between, are
  the call run in one piece.
\<close>

lemma uninterrupted_fetch:
  "store (foldl deliver \<lparr>store = s, inflight = []\<rparr>
            [CallFetchProfile, SelectSettles 0 (select_result env),
             InsertSettles 0 (insert_result env)])
     = snd (fetchProfile s env)"
proof (cases "user s")
  case None
  then show ?thesis by (simp add: fetchProfile_def fetchProfile_begin_def)
next
  case (Some u)
  then show ?thesis
    by (cases "fetchProfile_selected u (select_result env) s")
       (simp_all add: fetchProfile_def fetchProfile_begin_def)
qed

subsection \<open>No profile without a user\<close>

text \<open>Each operation, run in one piece, keeps the profile null while the user is null.\<close>

lemma onAuthStateChange_inv:
  "user (snd (onAuthStateChange s event sess env)) = None \<longrightarrow>
   profile (snd (onAuthStateChange s event sess env)) = None"
proof (cases sess)
  case None
  then show ?thesis by (simp add: onAuthStateChange_def)
next
  case (Some se)
  then have "user (snd (onAuthStateChange s event sess env)) = Some (session_user se)"
    by (simp add: onAuthStateChange_def Let_def fetchProfile_frame)
  then show ?thesis by simp
qed

lemma initialize_inv:
  assumes "user s = None \<longrightarrow> profile s = None"
  shows "user (snd (initialize s g env sub)) = None \<longrightarrow>
         profile (snd (initialize s g env sub)) = None"
proof (cases g)
  case (Inl e)
  with assms show ?thesis
    by (simp add: initialize_def initialize_try_def initialize_catch_def)
next
  case (Inr resp)
  show ?thesis
  proof (cases "gs_session resp")
    case None
    with Inr assms show ?thesis
      by (cases sub) (simp_all add: initialize_def initialize_try_def initialize_catch_def)
  next
    case (Some se)
    with Inr have "user (snd (initialize s g env sub)) = Some (session_user se)"
      by (cases sub)
         (simp_all add: initialize_def initialize_try_def initialize_catch_def
            fetchProfile_case fetchProfile_frame)
    then show ?thesis by simp
  qed
qed

lemma login_inv:
  assumes "user s = None \<longrightarrow> profile s = None"
  shows "user (snd (login s email password r env)) = None \<longrightarrow>
         profile (snd (login s email password r env)) = None"
proof (cases r)
  case (Inl e)
  with assms show ?thesis by (simp add: login_def login_try_def login_catch_def)
next
  case (Inr resp)
  show ?thesis
  proof (cases "auth_error resp")
    case (Some e)
    with Inr assms show ?thesis by (simp add: login_def login_try_def login_catch_def)
  next
    case None
    note no_error = this
    show ?thesis
    proof (cases "data_user resp")
      case None
      with Inr no_error assms show ?thesis by (simp add: login_def login_try_def)
    next
      case (Some u)
      with Inr no_error have "user (snd (login s email password r env)) = Some u"
        by (simp add: login_def login_try_def fetchProfile_case fetchProfile_frame)
      then show ?thesis by simp
    qed
  qed
qed

lemma signup_inv:
  "(user s = None \<longrightarrow> profile s = None) \<Longrightarrow>
   user (snd (signup s email password name r)) = None \<longrightarrow>
   profile (snd (signup s email password name r)) = None"
  by (auto simp: signup_def signup_try_def signup_catch_def
      split: sum.splits option.splits if_splits)

lemma logout_inv:
  "(user s = None \<longrightarrow> profile s = None) \<Longrightarrow>
   user (snd (logout s r)) = None \<longrightarrow> profile (snd (logout s r)) = None"
  by (auto simp: logout_def logout_try_def logout_catch_def
      split: sum.splits option.splits)

lemma updateProfile_inv:
  "(user s = None \<longrightarrow> profile s = None) \<Longrightarrow>
   user (snd (updateProfile s updates r)) = None \<longrightarrow>
   profile (snd (updateProfile s updates r)) = None"
  by (auto simp: updateProfile_def updateProfile_try_def updateProfile_catch_def
      split: sum.splits option.splits)

lemma apply_op_inv:
  assumes "user s = None \<longrightarrow> profile s = None"
  shows "user (snd (apply_op x s)) = None \<longrightarrow> profile (snd (apply_op x s)) = None"
proof (cases x)
  case (Initialize g env sub)
  show ?thesis unfolding Initialize apply_op.simps by (rule initialize_inv [OF assms])
next
  case (Login email password r env)
  show ?thesis unfolding Login apply_op.simps by (rule login_inv [OF assms])
next
  case (Signup email password name r)
  show ?thesis unfolding Signup apply_op.simps by (rule signup_inv [OF assms])
next
  case (Logout r)
  show ?thesis unfolding Logout apply_op.simps by (rule logout_inv [OF assms])
next
  case (FetchProfile env)
  show ?thesis unfolding FetchProfile apply_op.simps by (rule fetchProfile_inv [OF assms])
next
  case (UpdateProfile updates r)
  show ?thesis unfolding UpdateProfile apply_op.simps by (rule updateProfile_inv [OF assms])
next
  case ClearError
  with assms show ?thesis by (simp add: clearError_def)
next
  case (AuthStateChange event sess env)
  show ?thesis unfolding AuthStateChange apply_op.simps by (rule onAuthStateChange_inv)
qed

text \<open>
  Without overlap: in every state reached by operations and notifications that each run
  in one piece, a null user comes with a null profile.
\<close>

lemma reachable_no_profile_without_user:
  assumes "reachable s" and "user s = None"
  shows "profile s = None"
proof -
  from assms(1) have "user s = None \<longrightarrow> profile s = None"
  proof (induction rule: reachable.induct)
    case reachable_initial
    show ?case by (simp add: initial_state_def)
  next
    case (reachable_op s x)
    from reachable_op.IH show ?case by (rule apply_op_inv)
  qed
  with assms(2) show ?thesis by simp
qed



lemma deliver_not_lands:
  "\<not> lands c (SelectSettles i r) \<Longrightarrow> deliver c (SelectSettles i r) = c"
  "\<not> lands c (InsertSettles i r) \<Longrightarrow> deliver c (InsertSettles i r) = c"
  by (auto split: task.splits)







text \<open>
  What the condition covers. A run without fetchProfile calls in flight satisfies it, and
  so does every run in which no step clears the user while a fetchProfile call is in
  flight.
\<close>

lemma answered_signed_in_Run: "answered_signed_in c (map Run xs)"
  by (induction xs arbitrary: c) simp_all

lemma lands_pending: "lands c ev \<Longrightarrow> pending c"
proof (cases ev)
  case (SelectSettles i r)
  assume "lands c ev"
  with SelectSettles have "i < length (inflight c)" and "inflight c ! i \<noteq> Returned"
    by (auto split: task.splits)
  then show ?thesis
    unfolding pending_def list_ex_iff using nth_mem by blast
next
  case (InsertSettles i r)
  assume "lands c ev"
  with InsertSettles have "i < length (inflight c)" and "inflight c ! i \<noteq> Returned"
    by (auto split: task.splits)
  then show ?thesis
    unfolding pending_def list_ex_iff using nth_mem by blast
qed simp_all

lemma deliver_pending:
  assumes "pending (deliver c ev)" and "\<not> pending c"
  shows "ev = CallFetchProfile \<and> user (store c) \<noteq> None \<and> store (deliver c ev) = store c"
proof (cases ev)
  case (Run x)
  with assms show ?thesis by (simp add: pending_def)
next
  case CallFetchProfile
  with assms show ?thesis
    by (cases "user (store c)") (simp_all add: pending_def fetchProfile_begin_def)
next
  case (SelectSettles i r)
  from assms(2) have "\<not> lands c ev" using lands_pending by blast
  with assms show ?thesis by (simp add: SelectSettles deliver_not_lands del: deliver.simps lands.simps)
next
  case (InsertSettles i r)
  from assms(2) have "\<not> lands c ev" using lands_pending by blast
  with assms show ?thesis by (simp add: InsertSettles deliver_not_lands del: deliver.simps lands.simps)
qed

lemma user_kept_answered:
  "pending c \<longrightarrow> user (store c) \<noteq> None \<Longrightarrow> user_kept_in_flight c evs \<Longrightarrow>
   answered_signed_in c evs"
proof (induction evs arbitrary: c)
  case Nil
  then show ?case by simp
next
  case (Cons ev evs)
  from Cons.prems(2)
  have keep: "pending c \<and> user (store c) \<noteq> None \<longrightarrow> user (store (deliver c ev)) \<noteq> None"
    and rest: "user_kept_in_flight (deliver c ev) evs" by simp_all
  have here: "lands c ev \<longrightarrow> user (store c) \<noteq> None"
    using Cons.prems(1) lands_pending by blast
  have "pending (deliver c ev) \<longrightarrow> user (store (deliver c ev)) \<noteq> None"
  proof
    assume p: "pending (deliver c ev)"
    show "user (store (deliver c ev)) \<noteq> None"
    proof (cases "pending c")
      case True
      with Cons.prems(1) keep show ?thesis by blast
    next
      case False
      from deliver_pending [OF p False]
      have s: "store (deliver c ev) = store c" and u: "user (store c) \<noteq> None"
        by blast+
      show ?thesis unfolding s by (rule u)
    qed
  qed
  from this rest have "answered_signed_in (deliver c ev) evs" by (rule Cons.IH)
  with here show ?case by simp
qed

lemma user_kept_in_flight_answered:
  "user_kept_in_flight \<lparr>store = initial_state, inflight = []\<rparr> evs \<Longrightarrow>
   answered_signed_in \<lparr>store = initial_state, inflight = []\<rparr> evs"
  by (rule user_kept_answered) (simp_all add: pending_def)

text \<open>The run of the counterexample below does not satisfy the condition.\<close>

lemma stale_excluded:
  "\<not> answered_signed_in \<lparr>store = initial_state, inflight = []\<rparr> stale_fetch_run"
  by (simp add: stale_fetch_run_def signed_in_def env_found_def found_def
        initial_state_def login_def login_try_def logout_def logout_try_def fetch_defs)


subsection \<open>initialize\<close>

lemma initialize_resolves:
  "fst (initialize s g env sub) = Resolved \<and> isInitialized (snd (initialize s g env sub))"
proof (cases g)
  case (Inl e)
  then show ?thesis
    by (simp add: initialize_def initialize_try_def initialize_catch_def)
next
  case (Inr resp)
  then show ?thesis
    by (cases "gs_session resp"; cases sub)
       (simp_all add: initialize_def initialize_try_def initialize_catch_def
          fetchProfile_case fetchProfile_frame)
qed

lemma initialize_returned_error:
  "error (snd (initialize s (Inr resp) env None)) = error s"
  by (cases "gs_session resp")
     (simp_all add: initialize_def initialize_try_def fetchProfile_case fetchProfile_frame)

lemma initialize_thrown_error:
  "error (snd (initialize s (Inl e) env sub)) = Some (message e)"
  "error (snd (initialize s (Inr resp) env (Some e))) = Some (message e)"
  by (cases "gs_session resp";
      simp add: initialize_def initialize_try_def initialize_catch_def
        fetchProfile_case fetchProfile_frame)+

text \<open>
  Claim C2, amended: whatever the provider and the repository answer, initialize resolves
  and leaves \<open>isInitialized\<close> true. An exception (getSession rejects, or the
  registration of the handler throws) is recorded: \<open>error\<close> becomes its message. An
  error that getSession returns in its response is only logged: when nothing is thrown,
  \<open>error\<close> keeps the value it had before the call, whatever \<open>gs_error resp\<close> is.
\<close>

theorem initialize_completes:
  "fst (initialize s g env sub) = Resolved \<and>
   isInitialized (snd (initialize s g env sub)) \<and>
   error (snd (initialize s (Inl e) env sub)) = Some (message e) \<and>
   error (snd (initialize s (Inr resp) env (Some e))) = Some (message e) \<and>
   error (snd (initialize s (Inr resp) env None)) = error s"
  by (simp add: initialize_resolves initialize_returned_error initialize_thrown_error)

text \<open>
  Claim C2 as stated fails where getSession resolves with an error in its response:
  started in the initial state, initialize ends with \<open>error\<close> still null.
\<close>

theorem initialize_returned_error_counterexample:
  "error (snd (initialize initial_state
                 (Inr \<lparr>gs_session = None, gs_error = Some outage\<rparr>) env_found None)) = None"
  by (simp add: initialize_def initialize_try_def initial_state_def)

subsection \<open>Which operations raise\<close>

lemma login_failed:
  assumes "auth_failed r"
  shows "\<exists>e. login s email password r env =
           (Rejected e, s\<lparr>error := Some (or_else (message e) ''Login failed''),
                        isLoading := False\<rparr>)"
proof (cases r)
  case (Inl e)
  then show ?thesis by (simp add: login_def login_try_def login_catch_def)
next
  case (Inr resp)
  with assms obtain e where e: "auth_error resp = Some e"
    by (cases "auth_error resp") (simp_all add: auth_failed_def)
  show ?thesis
  proof (cases "includes_str (message e) ''Email not confirmed''")
    case True
    with Inr e show ?thesis by (simp add: login_def login_try_def login_catch_def)
  next
    case False
    with Inr e show ?thesis by (simp add: login_def login_try_def login_catch_def)
  qed
qed

lemma signup_failed:
  assumes "auth_failed r"
  shows "\<exists>e. signup s email password name r =
           (Rejected e, s\<lparr>error := Some (or_else (message e) ''Signup failed''),
                        isLoading := False\<rparr>)"
proof (cases r)
  case (Inl e)
  then show ?thesis by (simp add: signup_def signup_try_def signup_catch_def)
next
  case (Inr resp)
  with assms obtain e where e: "auth_error resp = Some e"
    by (cases "auth_error resp") (simp_all add: auth_failed_def)
  with Inr show ?thesis by (simp add: signup_def signup_try_def signup_catch_def)
qed

lemma logout_failed:
  assumes "signout_failed r"
  shows "\<exists>e::js_error. logout s r =
           (Resolved, s\<lparr>error := Some (or_else (message e) ''Logout failed''),
                         isLoading := False\<rparr>)"
proof (cases r)
  case (Inl e)
  show ?thesis
    by (rule exI [of _ e]) (simp add: Inl logout_def logout_try_def logout_catch_def)
next
  case (Inr err)
  with assms obtain e where e: "err = Some e"
    by (cases err) (simp_all add: signout_failed_def)
  show ?thesis
    by (rule exI [of _ e]) (simp add: Inr e logout_def logout_try_def logout_catch_def)
qed

lemma updateProfile_failed:
  assumes "user s \<noteq> None" and "db_failed r"
  shows "\<exists>e::js_error. updateProfile s updates r =
           (Resolved, s\<lparr>error := Some (or_else (message e) ''Failed to update profile''),
                         isLoading := False\<rparr>)"
proof -
  from assms(1) obtain u where u: "user s = Some u"
    by (cases "user s") simp_all
  show ?thesis
  proof (cases r)
    case (Inl e)
    show ?thesis
      by (rule exI [of _ e])
         (simp add: Inl u updateProfile_def updateProfile_try_def updateProfile_catch_def)
  next
    case (Inr resp)
    with assms(2) obtain e where e: "db_error resp = Some e"
      by (cases "db_error resp") (simp_all add: db_failed_def)
    show ?thesis
      by (rule exI [of _ e])
         (simp add: Inr e u updateProfile_def updateProfile_try_def updateProfile_catch_def)
  qed
qed

text \<open>
  A call fails exactly when its promise rejects or its response carries an error.
\<close>

lemma auth_failed_cases:
  "auth_failed r \<longleftrightarrow> (\<exists>e. r = Inl e) \<or> (\<exists>resp e. r = Inr resp \<and> auth_error resp = Some e)"
  by (cases r) (auto simp: auth_failed_def)

lemma signout_failed_cases:
  "signout_failed r \<longleftrightarrow> (\<exists>e. r = Inl e) \<or> (\<exists>e. r = Inr (Some e))"
  by (cases r) (auto simp: signout_failed_def)

lemma db_failed_cases:
  "db_failed r \<longleftrightarrow> (\<exists>e. r = Inl e) \<or> (\<exists>resp e. r = Inr resp \<and> db_error resp = Some e)"
  by (cases r) (auto simp: db_failed_def)

lemma login_rejected:
  "login s email password (Inl e) env =
     (Rejected e, s\<lparr>error := Some (or_else (message e) ''Login failed''), isLoading := False\<rparr>)"
  by (simp add: login_def login_try_def login_catch_def)

lemma login_returned_error:
  assumes "auth_error resp = Some e"
  shows "\<not> includes_str (message e) ''Email not confirmed'' \<Longrightarrow>
         login s email password (Inr resp) env =
           (Rejected e,
            s\<lparr>error := Some (or_else (message e) ''Login failed''), isLoading := False\<rparr>)"
    and "includes_str (message e) ''Email not confirmed'' \<Longrightarrow>
         login s email password (Inr resp) env =
           (Rejected email_not_confirmed_error,
            s\<lparr>error := Some (message email_not_confirmed_error), isLoading := False\<rparr>)"
  using assms
  by (simp_all add: login_def login_try_def login_catch_def or_else_def
        email_not_confirmed_error_def)

lemma signup_rejected:
  "signup s email password name (Inl e) =
     (Rejected e, s\<lparr>error := Some (or_else (message e) ''Signup failed''), isLoading := False\<rparr>)"
  "auth_error resp = Some e \<Longrightarrow>
   signup s email password name (Inr resp) =
     (Rejected e, s\<lparr>error := Some (or_else (message e) ''Signup failed''), isLoading := False\<rparr>)"
  by (simp_all add: signup_def signup_try_def signup_catch_def)

lemma logout_swallows:
  "logout s (Inl e) =
     (Resolved, s\<lparr>error := Some (or_else (message e) ''Logout failed''), isLoading := False\<rparr>)"
  "logout s (Inr (Some e)) =
     (Resolved, s\<lparr>error := Some (or_else (message e) ''Logout failed''), isLoading := False\<rparr>)"
  by (simp_all add: logout_def logout_try_def logout_catch_def)

lemma updateProfile_swallows:
  assumes "user s \<noteq> None"
  shows "updateProfile s updates (Inl e) =
     (Resolved,
      s\<lparr>error := Some (or_else (message e) ''Failed to update profile''), isLoading := False\<rparr>)"
    and "db_error dresp = Some e \<Longrightarrow>
     updateProfile s updates (Inr dresp) =
       (Resolved,
        s\<lparr>error := Some (or_else (message e) ''Failed to update profile''),
          isLoading := False\<rparr>)"
  using assms
  by (cases "user s";
      simp add: updateProfile_def updateProfile_try_def updateProfile_catch_def)+

text \<open>
  Claim C3, amended. When the sign-in or the registration fails, login and signup
  reject with the provider's error \<open>e\<close> itself, thrown or returned, and record its message
  in \<open>error\<close> (the default text when the message is empty); the one exception is a
  returned error whose message includes \<open>Email not confirmed\<close>, for which login rejects
  with its own error and records the message of that one. When their remote call fails
  with \<open>e\<close>, logout and updateProfile record the message of \<open>e\<close> in the same way and
  resolve. In every case the state is otherwise the one before the call, with
  \<open>isLoading\<close> false.
\<close>

theorem failure_propagation:
  "login s email password (Inl e) env =
     (Rejected e, s\<lparr>error := Some (or_else (message e) ''Login failed''), isLoading := False\<rparr>) \<and>
   (auth_error resp = Some e \<and> \<not> includes_str (message e) ''Email not confirmed'' \<longrightarrow>
      login s email password (Inr resp) env =
        (Rejected e,
         s\<lparr>error := Some (or_else (message e) ''Login failed''), isLoading := False\<rparr>)) \<and>
   (auth_error resp = Some e \<and> includes_str (message e) ''Email not confirmed'' \<longrightarrow>
      login s email password (Inr resp) env =
        (Rejected email_not_confirmed_error,
         s\<lparr>error := Some (message email_not_confirmed_error), isLoading := False\<rparr>)) \<and>
   signup s email password name (Inl e) =
     (Rejected e, s\<lparr>error := Some (or_else (message e) ''Signup failed''), isLoading := False\<rparr>) \<and>
   (auth_error resp = Some e \<longrightarrow>
      signup s email password name (Inr resp) =
        (Rejected e,
         s\<lparr>error := Some (or_else (message e) ''Signup failed''), isLoading := False\<rparr>)) \<and>
   logout s (Inl e) =
     (Resolved, s\<lparr>error := Some (or_else (message e) ''Logout failed''), isLoading := False\<rparr>) \<and>
   logout s (Inr (Some e)) =
     (Resolved, s\<lparr>error := Some (or_else (message e) ''Logout failed''), isLoading := False\<rparr>) \<and>
   (user s \<noteq> None \<longrightarrow>
      updateProfile s updates (Inl e) =
        (Resolved,
         s\<lparr>error := Some (or_else (message e) ''Failed to update profile''),
           isLoading := False\<rparr>)) \<and>
   (user s \<noteq> None \<and> db_error dresp = Some e \<longrightarrow>
      updateProfile s updates (Inr dresp) =
        (Resolved,
         s\<lparr>error := Some (or_else (message e) ''Failed to update profile''),
           isLoading := False\<rparr>))"
  by (intro conjI impI)
     (simp_all add: login_rejected login_returned_error signup_rejected logout_swallows
        updateProfile_swallows)

text \<open>
  The theorem at a wrong password, an unconfirmed email, a sign-out that returns an error
  and a repository that is down.
\<close>

theorem failure_propagation_witness:
  "auth_error \<lparr>data_user = None, data_session = None,
               auth_error = Some \<lparr>message = ''Invalid login credentials'', code = None\<rparr>\<rparr>
     = Some \<lparr>message = ''Invalid login credentials'', code = None\<rparr> \<and>
   \<not> includes_str ''Invalid login credentials'' ''Email not confirmed'' \<and>
   includes_str ''Email not confirmed'' ''Email not confirmed'' \<and>
   user alice_in \<noteq> None \<and>
   login alice_in ''a@x.com'' ''wrong'' bad_password env_found =
     (Rejected \<lparr>message = ''Invalid login credentials'', code = None\<rparr>,
      alice_in\<lparr>error := Some ''Invalid login credentials'', isLoading := False\<rparr>) \<and>
   login alice_in ''a@x.com'' ''pw'' email_unconfirmed env_found =
     (Rejected email_not_confirmed_error,
      alice_in\<lparr>error := Some (message email_not_confirmed_error), isLoading := False\<rparr>) \<and>
   signup alice_in ''a@x.com'' ''wrong'' ''Alice'' bad_password =
     (Rejected \<lparr>message = ''Invalid login credentials'', code = None\<rparr>,
      alice_in\<lparr>error := Some ''Invalid login credentials'', isLoading := False\<rparr>) \<and>
   logout alice_in (Inr (Some outage)) =
     (Resolved, alice_in\<lparr>error := Some ''Failed to fetch'', isLoading := False\<rparr>) \<and>
   updateProfile alice_in rename_updates db_down =
     (Resolved, alice_in\<lparr>error := Some ''Failed to fetch'', isLoading := False\<rparr>)"
proof -
  let ?bad = "\<lparr>message = ''Invalid login credentials'', code = None\<rparr>"
  let ?unc = "\<lparr>message = ''Email not confirmed'', code = None\<rparr>"
  have a: "\<not> includes_str (message ?bad) ''Email not confirmed''" by simp
  have b: "includes_str (message ?unc) ''Email not confirmed''" by simp
  have c: "user alice_in \<noteq> None" by (simp add: alice_in_def)
  from a b c
    failure_propagation [where s = alice_in and email = "''a@x.com''" and password = "''wrong''"
          and env = env_found and name = "''Alice''" and e = ?bad
          and resp = "\<lparr>data_user = None, data_session = None, auth_error = Some ?bad\<rparr>"]
    failure_propagation [where s = alice_in and email = "''a@x.com''" and password = "''pw''"
          and env = env_found and e = ?unc
          and resp = "\<lparr>data_user = None, data_session = None, auth_error = Some ?unc\<rparr>"]
    failure_propagation [where s = alice_in and e = outage and updates = rename_updates
          and dresp = "\<lparr>data = None, db_error = Some outage\<rparr>"]
  show ?thesis
    by (simp add: bad_password_def email_unconfirmed_def db_down_def outage_def or_else_def)
qed

text \<open>
  Claim C3 as stated fails for logout and updateProfile: their promises resolve when the
  remote call fails.
\<close>

theorem swallowed_failure_counterexample:
  "fst (logout alice_in (Inr (Some outage))) = Resolved \<and>
   fst (updateProfile alice_in rename_updates db_down) = Resolved"
  by (simp add: logout_def logout_try_def logout_catch_def updateProfile_def
        updateProfile_try_def updateProfile_catch_def alice_in_def db_down_def)

subsection \<open>fetchProfile is best effort\<close>

text \<open>
  Claim C4: fetchProfile never rejects; with no user it does nothing, in one piece or as
  a call that starts among others; when its select fails with anything but the not-found
  signal, or its select is answered with the not-found signal and its insert fails, it
  leaves the whole state, so the profile and \<open>error\<close>, as they were, and so does each
  of its pieces on the state current when the failing answer arrives; and it sends the
  insert exactly when the select is answered with the not-found signal.
\<close>

theorem fetchProfile_best_effort:
  "fst (fetchProfile s env) = Resolved \<and>
   (user s = None \<longrightarrow> fetchProfile s env = (Resolved, s)) \<and>
   (user (store c) = None \<longrightarrow> deliver c CallFetchProfile = c) \<and>
   (db_failed (select_result env) \<and> \<not> not_found (select_result env) \<longrightarrow>
      fetchProfile s env = (Resolved, s)) \<and>
   ((\<exists>row. fetchProfile_selected u r s = InsertSent row) \<longleftrightarrow> not_found r) \<and>
   (not_found (select_result env) \<and> db_failed (insert_result env) \<longrightarrow>
      fetchProfile s env = (Resolved, s)) \<and>
   (db_failed r \<and> \<not> not_found r \<longrightarrow> fetchProfile_selected u r s = Settled Resolved s) \<and>
   (db_failed r \<longrightarrow> fetchProfile_inserted r s = (Resolved, s))"
proof (intro conjI)
  show "fst (fetchProfile s env) = Resolved" by (rule fetchProfile_resolves)
  show "user s = None \<longrightarrow> fetchProfile s env = (Resolved, s)"
    by (simp add: fetchProfile_no_user)
  show "user (store c) = None \<longrightarrow> deliver c CallFetchProfile = c"
    by (simp add: fetchProfile_begin_def)
  show "db_failed (select_result env) \<and> \<not> not_found (select_result env) \<longrightarrow>
      fetchProfile s env = (Resolved, s)"
    by (cases "select_result env")
       (auto simp: fetch_defs db_failed_def not_found_def split: option.splits)
  show "(\<exists>row. fetchProfile_selected u r s = InsertSent row) \<longleftrightarrow> not_found r"
    by (cases r)
       (auto simp: fetchProfile_selected_def fetchProfile_catch_def not_found_def
          split: option.splits)
  show "not_found (select_result env) \<and> db_failed (insert_result env) \<longrightarrow>
      fetchProfile s env = (Resolved, s)"
    by (cases "select_result env"; cases "insert_result env")
       (auto simp: fetch_defs db_failed_def not_found_def split: option.splits)
  show "db_failed r \<and> \<not> not_found r \<longrightarrow> fetchProfile_selected u r s = Settled Resolved s"
    by (cases r)
       (auto simp: fetchProfile_selected_def fetchProfile_catch_def db_failed_def not_found_def
          split: option.splits)
  show "db_failed r \<longrightarrow> fetchProfile_inserted r s = (Resolved, s)"
    by (cases r)
       (auto simp: fetchProfile_inserted_def fetchProfile_catch_def db_failed_def
          split: option.splits)
qed

text \<open>
  The theorem at a repository that is down, at the initial state, at the not-found
  signal and at a creation that fails.
\<close>

theorem fetchProfile_best_effort_witness:
  "db_failed db_down \<and> \<not> not_found db_down \<and> user initial_state = None \<and>
   fetchProfile alice_in env_down = (Resolved, alice_in) \<and>
   fetchProfile initial_state env_found = (Resolved, initial_state) \<and>
   deliver \<lparr>store = initial_state, inflight = []\<rparr> CallFetchProfile
     = \<lparr>store = initial_state, inflight = []\<rparr> \<and>
   not_found no_rows \<and>
   (\<exists>row. fetchProfile_selected alice no_rows alice_in = InsertSent row) \<and>
   fetchProfile alice_in env_create_fails = (Resolved, alice_in) \<and>
   fetchProfile_selected alice db_down alice_in = Settled Resolved alice_in \<and>
   fetchProfile_inserted db_down alice_in = (Resolved, alice_in)"
proof -
  have a: "db_failed db_down \<and> \<not> not_found db_down"
    by (simp add: db_failed_def not_found_def db_down_def outage_def)
  have b: "user initial_state = None" by (simp add: initial_state_def)
  have c: "not_found no_rows" by (simp add: not_found_def no_rows_def)
  from a b c
    fetchProfile_best_effort [of alice_in env_down "\<lparr>store = initial_state, inflight = []\<rparr>" alice no_rows]
    fetchProfile_best_effort [of initial_state env_found "\<lparr>store = initial_state, inflight = []\<rparr>" alice no_rows]
    fetchProfile_best_effort [of alice_in env_create_fails "\<lparr>store = initial_state, inflight = []\<rparr>" alice db_down]
  show ?thesis by (simp add: env_down_def env_create_fails_def)
qed

subsection \<open>signup with an unconfirmed email\<close>

text \<open>
  Claim C5, amended: when the registration succeeds with a user whose email is not yet
  confirmed, signup resolves, sets \<open>error\<close> to the confirmation-pending message and
  \<open>isLoading\<close> to false, and leaves every other field, so user and session, as they
  were before the call: null when signup is called in a signed-out state.
\<close>

theorem signup_unconfirmed:
  assumes "auth_error resp = None" and "data_user resp = Some u"
    and "\<not> truthy (email_confirmed_at u)"
  shows "signup s email password name (Inr resp) =
           (Resolved, s\<lparr>error := Some confirmation_pending, isLoading := False\<rparr>) \<and>
         user (snd (signup s email password name (Inr resp))) = user s \<and>
         session (snd (signup s email password name (Inr resp))) = session s"
  using assms by (simp add: signup_def signup_try_def)

text \<open>The theorem at a signup from the initial state.\<close>

theorem signup_unconfirmed_witness:
  "auth_error \<lparr>data_user = Some alice_unconfirmed, data_session = None, auth_error = None\<rparr>
     = None \<and>
   \<not> truthy (email_confirmed_at alice_unconfirmed) \<and>
   signup initial_state ''a@x.com'' ''pw'' ''Alice'' registered_unconfirmed =
     (Resolved, initial_state\<lparr>error := Some confirmation_pending, isLoading := False\<rparr>) \<and>
   user (snd (signup initial_state ''a@x.com'' ''pw'' ''Alice'' registered_unconfirmed)) = None \<and>
   session (snd (signup initial_state ''a@x.com'' ''pw'' ''Alice'' registered_unconfirmed)) = None"
proof -
  have a: "\<not> truthy (email_confirmed_at alice_unconfirmed)"
    by (simp add: truthy_def str_of_def alice_unconfirmed_def)
  from a signup_unconfirmed
    [of "\<lparr>data_user = Some alice_unconfirmed, data_session = None, auth_error = None\<rparr>"
      alice_unconfirmed initial_state "''a@x.com''" "''pw''" "''Alice''"]
  show ?thesis by (simp add: registered_unconfirmed_def initial_state_def)
qed

text \<open>
  Claim C5 as stated fails when signup is called in a signed-in state: the user and the
  session of before the call are still there.
\<close>

theorem signup_keeps_user_counterexample:
  "user (snd (signup alice_in ''a@x.com'' ''pw'' ''Alice'' registered_unconfirmed)) = Some alice \<and>
   session (snd (signup alice_in ''a@x.com'' ''pw'' ''Alice'' registered_unconfirmed))
     = Some alice_session"
  by (simp add: signup_def signup_try_def registered_unconfirmed_def alice_in_def
        alice_unconfirmed_def truthy_def str_of_def)

subsection \<open>login, then logout\<close>

text \<open>
  Claim C6: after a login whose sign-in succeeds, followed by a logout whose sign-out
  succeeds, user, profile and session are null. Both calls resolve.
\<close>

theorem login_then_logout:
  assumes "\<not> auth_failed r" and "\<not> signout_failed r1"
  shows "fst (login s email password r env) = Resolved \<and>
         fst (logout (snd (login s email password r env)) r1) = Resolved \<and>
         user (snd (logout (snd (login s email password r env)) r1)) = None \<and>
         profile (snd (logout (snd (login s email password r env)) r1)) = None \<and>
         session (snd (logout (snd (login s email password r env)) r1)) = None"
proof -
  from assms(2) have r1: "r1 = Inr None"
    by (cases r1) (simp_all add: signout_failed_def)
  from assms(1) obtain resp where r: "r = Inr resp" and ok: "auth_error resp = None"
    by (cases r) (simp_all add: auth_failed_def)
  have "fst (login s email password r env) = Resolved"
    by (cases "data_user resp")
       (simp_all add: r ok login_def login_try_def fetchProfile_case)
  then show ?thesis
    by (simp add: r1 logout_def logout_try_def)
qed

text \<open>The theorem at a login of Alice, which does set the user, and a logout.\<close>

theorem login_then_logout_witness:
  "\<not> auth_failed signed_in \<and> \<not> signout_failed (Inr None) \<and>
   user (snd (login initial_state ''a@x.com'' ''pw'' signed_in env_found)) = Some alice \<and>
   user (snd (logout (snd (login initial_state ''a@x.com'' ''pw'' signed_in env_found))
                (Inr None))) = None \<and>
   profile (snd (logout (snd (login initial_state ''a@x.com'' ''pw'' signed_in env_found))
                (Inr None))) = None \<and>
   session (snd (logout (snd (login initial_state ''a@x.com'' ''pw'' signed_in env_found))
                (Inr None))) = None"
proof -
  have a: "\<not> auth_failed signed_in" by (simp add: auth_failed_def signed_in_def)
  have b: "\<not> signout_failed (Inr None)" by (simp add: signout_failed_def)
  have c: "user (snd (login initial_state ''a@x.com'' ''pw'' signed_in env_found)) = Some alice"
    by (simp add: login_def login_try_def signed_in_def fetchProfile_case fetchProfile_frame)
  from a b c login_then_logout [OF a b, of initial_state "''a@x.com''" "''pw''" env_found]
  show ?thesis by simp
qed

subsection \<open>updateProfile\<close>

text \<open>
  Claim C7: updateProfile never changes user or session, whether the update succeeds or
  fails; when the update fails (there is a user, so the update is sent), the profile is
  left as it was, \<open>error\<close> is set and \<open>isLoading\<close> is false.
\<close>

theorem updateProfile_frame:
  "user (snd (updateProfile s updates r)) = user s \<and>
   session (snd (updateProfile s updates r)) = session s \<and>
   (user s \<noteq> None \<and> db_failed r \<longrightarrow>
      profile (snd (updateProfile s updates r)) = profile s \<and>
      error (snd (updateProfile s updates r)) \<noteq> None \<and>
      \<not> isLoading (snd (updateProfile s updates r)))"
proof (intro conjI impI)
  show "user (snd (updateProfile s updates r)) = user s"
    by (auto simp: updateProfile_def updateProfile_try_def updateProfile_catch_def
        split: option.splits sum.splits)
  show "session (snd (updateProfile s updates r)) = session s"
    by (auto simp: updateProfile_def updateProfile_try_def updateProfile_catch_def
        split: option.splits sum.splits)
next
  assume "user s \<noteq> None \<and> db_failed r"
  then have "user s \<noteq> None" and "db_failed r" by simp_all
  then obtain e :: js_error where eq: "updateProfile s updates r =
      (Resolved, s\<lparr>error := Some (or_else (message e) ''Failed to update profile''),
                    isLoading := False\<rparr>)"
    using updateProfile_failed [of s r updates] by blast
  show "profile (snd (updateProfile s updates r)) = profile s" by (simp add: eq)
  show "error (snd (updateProfile s updates r)) \<noteq> None" by (simp add: eq)
  show "\<not> isLoading (snd (updateProfile s updates r))" by (simp add: eq)
qed

text \<open>The theorem at an update of Alice's profile while the repository is down.\<close>

theorem updateProfile_frame_witness:
  "user alice_in \<noteq> None \<and> db_failed db_down \<and>
   user (snd (updateProfile alice_in rename_updates db_down)) = user alice_in \<and>
   session (snd (updateProfile alice_in rename_updates db_down)) = session alice_in \<and>
   profile (snd (updateProfile alice_in rename_updates db_down)) = profile alice_in \<and>
   error (snd (updateProfile alice_in rename_updates db_down)) \<noteq> None \<and>
   \<not> isLoading (snd (updateProfile alice_in rename_updates db_down))"
proof -
  have a: "user alice_in \<noteq> None" by (simp add: alice_in_def)
  have b: "db_failed db_down" by (simp add: db_failed_def db_down_def)
  from a b updateProfile_frame [of alice_in rename_updates db_down] show ?thesis by simp
qed

subsection \<open>Creation of the profile is not guarded\<close>

lemma length_filter_update:
  "i < length xs \<Longrightarrow> \<not> P (xs ! i) \<Longrightarrow> P y \<Longrightarrow>
   length (filter P (xs[i := y])) = Suc (length (filter P xs))"
proof (induction xs arbitrary: i)
  case Nil
  then show ?case by simp
next
  case (Cons x xs)
  then show ?case by (cases i) simp_all
qed

lemma deliver_not_found:
  assumes "i < length (inflight c)" and "inflight c ! i = AwaitSelect u" and "not_found r"
  shows "deliver c (SelectSettles i r) =
           c\<lparr>inflight := (inflight c)[i := AwaitInsert u (new_profile_row u)]\<rparr>"
proof -
  from assms(3) obtain resp e where "r = Inr resp" and "db_error resp = Some e"
    and "code e = Some ''PGRST116''"
    by (cases r) (auto simp: not_found_def split: option.splits)
  then have "fetchProfile_selected u r (store c) = InsertSent (new_profile_row u)"
    by (simp add: fetchProfile_selected_def)
  with assms(1,2) show ?thesis by simp
qed

text \<open>
  Claim C8, amended: the store has no guard on the creation of a profile. A fetchProfile
  call whose select is answered with the not-found signal sends its own insert, whatever
  else is in flight: the state is not touched, the call now awaits its insert, and the
  inserts in flight for that identity are one more than before. So two overlapping calls
  make two creation attempts; the second does not wait for the first and does not read
  again. How many records result is left to the repository.
\<close>

theorem not_found_always_inserts:
  assumes "i < length (inflight c)" and "inflight c ! i = AwaitSelect u" and "not_found r"
  shows "store (deliver c (SelectSettles i r)) = store c \<and>
         inflight (deliver c (SelectSettles i r)) ! i = AwaitInsert u (new_profile_row u) \<and>
         inserts_in_flight (deliver c (SelectSettles i r)) (user_id u)
           = Suc (inserts_in_flight c (user_id u))"
proof -
  note d = deliver_not_found [OF assms]
  have "store (deliver c (SelectSettles i r)) = store c"
    unfolding d by simp
  moreover have "inflight (deliver c (SelectSettles i r)) ! i = AwaitInsert u (new_profile_row u)"
    unfolding d using assms(1) by simp
  moreover have "inserts_in_flight (deliver c (SelectSettles i r)) (user_id u)
           = Suc (inserts_in_flight c (user_id u))"
    unfolding d inserts_in_flight_def
    using assms(1,2) by (simp add: length_filter_update new_profile_row_def)
  ultimately show ?thesis by (intro conjI)
qed

text \<open>The theorem at the second not-found answer of \<open>double_fetch_run\<close>.\<close>

theorem not_found_always_inserts_witness:
  "not_found no_rows \<and>
   inserts_in_flight
     (run [Run (Login ''a@x.com'' ''pw'' signed_in env_down), CallFetchProfile, CallFetchProfile,
           SelectSettles 0 no_rows]) ''u1'' = 1 \<and>
   inserts_in_flight (run double_fetch_run) ''u1'' = Suc 1"
proof -
  let ?c = "run [Run (Login ''a@x.com'' ''pw'' signed_in env_down), CallFetchProfile,
                 CallFetchProfile, SelectSettles 0 no_rows]"
  have c: "?c = \<lparr>store = snd (login initial_state ''a@x.com'' ''pw'' signed_in env_down),
                  inflight = [AwaitInsert alice (new_profile_row alice), AwaitSelect alice]\<rparr>"
    by (simp add: run_def signed_in_def env_down_def db_down_def no_rows_def login_def
          login_try_def fetch_defs)
  have nf: "not_found no_rows" by (simp add: not_found_def no_rows_def)
  have i: "1 < length (inflight ?c)" and t: "inflight ?c ! 1 = AwaitSelect alice"
    by (simp_all add: c)
  have one: "inserts_in_flight ?c ''u1'' = 1"
    by (simp add: c inserts_in_flight_def new_profile_row_def alice_def)
  have "deliver ?c (SelectSettles 1 no_rows) = run double_fetch_run"
    by (simp add: run_def double_fetch_run_def)
  with not_found_always_inserts [OF i t nf] one nf show ?thesis
    by (simp add: alice_def)
qed

text \<open>
  Claim C8 as stated fails: after \<open>double_fetch_run\<close> two inserts for the profile of
  the same identity are in flight at the same time.
\<close>

theorem double_insert_counterexample:
  "inserts_in_flight (run double_fetch_run) ''u1'' = 2"
  by (simp add: run_def double_fetch_run_def signed_in_def env_down_def db_down_def no_rows_def
        alice_def initial_state_def login_def login_try_def fetch_defs inserts_in_flight_def
        new_profile_row_def or_else_def str_of_def)

subsection \<open>Persistence\<close>

text \<open>
  Claim C9: the object selected for storage has no key at all, so none for user,
  profile or session, and it is the same object for every state; whatever state was
  saved, rehydration gives the initial state.
\<close>

theorem partialize_retains_nothing:
  "p_user (partialize s) = None \<and> p_profile (partialize s) = None \<and>
   p_session (partialize s) = None \<and> p_isLoading (partialize s) = None \<and>
   p_isInitialized (partialize s) = None \<and> p_error (partialize s) = None \<and>
   partialize s = partialize s' \<and>
   rehydrate s = initial_state"
  by (simp add: partialize_def rehydrate_def merge_persisted_def initial_state_def)

subsection \<open>login without a user in the response\<close>

text \<open>
  Claim C10: when the sign-in resolves with no error and no user, login resolves, with
  \<open>error\<close> null and \<open>isLoading\<close> left true; nothing else is written, so user,
  session and profile are as before the call.
\<close>

theorem login_without_user_keeps_loading:
  "login s email password (Inr \<lparr>data_user = None, data_session = ds, auth_error = None\<rparr>) env
     = (Resolved, s\<lparr>isLoading := True, error := None\<rparr>)"
  by (simp add: login_def login_try_def)

end
